theory Spec2Isabelle
  imports Main "HOL-Library.Sublist" "HOL-Library.AList"
begin

section \<open>RadGraphAnalyzer: a shallow embedding\<close>

text \<open>
  The class \<^verbatim>\<open>RadGraphAnalyzer\<close> of
  \<^verbatim>\<open>Prediction Model/intensity_prediction/XGBoost_Y.ipynb\<close> is embedded function by
  function. Python dictionaries keep insertion order, so every dictionary whose order
  is visible (the entity mapping of the input, the default-dicts of the pattern bundle,
  the certainty counts, the observations) is an association list in insertion order.
  A Python string is a \<^typ>\<open>string\<close> whose characters are the code points below 256.
  A failing subscript is a value of type \<open>error\<close>.
\<close>

subsection \<open>Python primitives used by the class\<close>

datatype error = KeyError string | IndexError

text \<open>\<^verbatim>\<open>str.split()\<close> without argument: the white space of Python below code point 256.\<close>

definition is_space :: "char \<Rightarrow> bool" where
  "is_space c = (c \<in> {CHR 0x09, CHR 0x0A, CHR 0x0B, CHR 0x0C, CHR 0x0D,
                       CHR 0x1C, CHR 0x1D, CHR 0x1E, CHR 0x1F, CHR 0x20,
                       CHR 0x85, CHR 0xA0})"

text \<open>The word being read is kept reversed in the first argument.\<close>

fun ws_split_aux :: "string \<Rightarrow> string \<Rightarrow> string list" where
  "ws_split_aux cur [] = (if cur = [] then [] else [rev cur])"
| "ws_split_aux cur (c # cs) =
     (if is_space c
      then (if cur = [] then ws_split_aux [] cs else rev cur # ws_split_aux [] cs)
      else ws_split_aux (c # cur) cs)"

definition py_split :: "string \<Rightarrow> string list" where
  "py_split s = ws_split_aux [] s"

text \<open>\<^verbatim>\<open>sep.join(xs)\<close>.\<close>

fun py_join :: "string \<Rightarrow> string list \<Rightarrow> string" where
  "py_join sep [] = []"
| "py_join sep [x] = x"
| "py_join sep (x # y # ys) = x @ sep @ py_join sep (y # ys)"

text \<open>
  \<^verbatim>\<open>xs[a:b]\<close>: a negative bound counts from the end, and both bounds are clamped to
  the list, so a slice never raises.
\<close>

definition slice_bound :: "nat \<Rightarrow> int \<Rightarrow> nat" where
  "slice_bound n i = (if i < 0 then nat (max (i + int n) 0) else min (nat i) n)"

definition py_slice :: "'a list \<Rightarrow> int \<Rightarrow> int \<Rightarrow> 'a list" where
  "py_slice xs a b =
     (let lo = slice_bound (length xs) a; hi = slice_bound (length xs) b
      in take (hi - lo) (drop lo xs))"

text \<open>\<^verbatim>\<open>t in s\<close> for two strings.\<close>

fun str_in :: "string \<Rightarrow> string \<Rightarrow> bool" where
  "str_in t [] = (t = [])"
| "str_in t (c # cs) = (prefix t (c # cs) \<or> str_in t cs)"

text \<open>
  \<^verbatim>\<open>s.split(sep)\<close> for a separator that is not empty (the class only splits at
  \<^verbatim>\<open>'::'\<close>): leftmost occurrences, not overlapping.
\<close>

function split_sep :: "string \<Rightarrow> string \<Rightarrow> string \<Rightarrow> string list" where
  "split_sep sep cur [] = [rev cur]"
| "split_sep sep cur (c # cs) =
     (if sep \<noteq> [] \<and> prefix sep (c # cs)
      then rev cur # split_sep sep [] (drop (length sep) (c # cs))
      else split_sep sep (c # cur) cs)"
  by pat_completeness auto
termination
  by (relation "measure (\<lambda>(sep, cur, s). length s)") (auto simp: neq_Nil_conv)

definition py_split_on :: "string \<Rightarrow> string \<Rightarrow> string list" where
  "py_split_on sep s = split_sep sep [] s"

text \<open>\<^verbatim>\<open>xs[i]\<close> for an index that is not negative.\<close>

definition py_index :: "'a list \<Rightarrow> nat \<Rightarrow> error + 'a" where
  "py_index xs i = (if i < length xs then Inr (xs ! i) else Inl IndexError)"

text \<open>\<^verbatim>\<open>str.lower()\<close> on the code points below 256.\<close>

definition py_lower_char :: "char \<Rightarrow> char" where
  "py_lower_char c =
     (let n = (of_char c :: nat)
      in if (65 \<le> n \<and> n \<le> 90) \<or> (192 \<le> n \<and> n \<le> 214) \<or> (216 \<le> n \<and> n \<le> 222)
         then char_of (n + 32) else c)"

definition py_lower :: "string \<Rightarrow> string" where
  "py_lower s = map py_lower_char s"

text \<open>
  \<^verbatim>\<open>d[k].append(v)\<close> on a \<^verbatim>\<open>defaultdict(list)\<close> and \<^verbatim>\<open>d[k] += 1\<close> on a
  \<^verbatim>\<open>defaultdict(int)\<close>: a missing key is created at the end.
\<close>

fun dd_append :: "(string \<times> 'a list) list \<Rightarrow> string \<Rightarrow> 'a \<Rightarrow> (string \<times> 'a list) list" where
  "dd_append [] k v = [(k, [v])]"
| "dd_append ((k', vs) # d) k v =
     (if k' = k then (k', vs @ [v]) # d else (k', vs) # dd_append d k v)"

fun dd_incr :: "(string \<times> nat) list \<Rightarrow> string \<Rightarrow> (string \<times> nat) list" where
  "dd_incr [] k = [(k, 1)]"
| "dd_incr ((k', n) # d) k =
     (if k' = k then (k', n + 1) # d else (k', n) # dd_incr d k)"


subsection \<open>Data model\<close>

text \<open>
  The input: \<^verbatim>\<open>extract['text']\<close>, \<^verbatim>\<open>extract['entities']\<close> and, per entity,
  \<^verbatim>\<open>start_ix\<close>, \<^verbatim>\<open>end_ix\<close>, \<^verbatim>\<open>label\<close> and the optional \<^verbatim>\<open>relations\<close>.
  A key that the dictionary does not have is \<open>None\<close>.
\<close>

record entity_info =
  info_start_ix :: "int option"
  info_end_ix :: "int option"
  info_label :: "string option"
  info_relations :: "(string \<times> string) list option"

record document =
  ex_text :: "string option"
  ex_entities :: "(string \<times> entity_info) list option"

record entity =
  e_id :: string
  e_text :: string
  e_type :: string
  e_start_ix :: int
  e_end_ix :: int

record relation =
  r_source :: string
  r_target :: string
  r_type :: string

text \<open>
  The values stored in the pattern bundle are entity texts, and pairs of texts under
  the key \<^verbatim>\<open>'suggestive_patterns'\<close>.
\<close>

datatype pyval = Str string | Tup string string

record patterns =
  findings :: "(string \<times> pyval list) list"
  locations :: "(string \<times> pyval list) list"
  modifiers :: "(string \<times> pyval list) list"

record observation =
  o_text :: string
  o_certainty :: string
  o_locations :: "string list"
  o_modifiers :: "string list"
  o_suggestions :: "string list"

record graph_metrics =
  num_entities :: nat
  num_relations :: nat
  num_anatomical_sites :: nat
  num_observations :: nat

record features =
  f_observations :: "(string \<times> observation) list"
  f_patterns :: patterns
  f_certainty_analysis :: "(string \<times> nat) list"
  f_graph_metrics :: graph_metrics

text \<open>
  The state of an analyzer object is its vocabulary, a Python set: the list is the
  order in which that set happens to be iterated.
\<close>

record analyzer =
  pneumonia_terms :: "string list"

definition ENTITY_TYPES :: "string set" where
  "ENTITY_TYPES = {''Anatomy::definitely present'', ''Observation::definitely present'',
                   ''Observation::uncertain'', ''Observation::definitely absent''}"

definition RELATION_TYPES :: "string set" where
  "RELATION_TYPES = {''suggestive_of'', ''located_at'', ''modify''}"

definition init :: analyzer where
  "init = \<lparr>pneumonia_terms =
     [''consolidation'', ''opacity'', ''infiltrate'', ''pneumonia'',
      ''airspace disease'', ''ground glass'', ''patchy'', ''focal'']\<rparr>"

subsection \<open>parse\_radgraph\_format\<close>

definition get_key :: "string \<Rightarrow> 'a option \<Rightarrow> error + 'a" where
  "get_key k v = (case v of None \<Rightarrow> Inl (KeyError k) | Some x \<Rightarrow> Inr x)"

text \<open>The entity literal of the loop body; its subscripts are evaluated left to right.\<close>

definition make_entity :: "string list \<Rightarrow> string \<Rightarrow> entity_info \<Rightarrow> error + entity" where
  "make_entity toks entity_id entity_info =
     (case get_key ''start_ix'' (info_start_ix entity_info) of Inl err \<Rightarrow> Inl err | Inr s \<Rightarrow>
     (case get_key ''end_ix'' (info_end_ix entity_info) of Inl err \<Rightarrow> Inl err | Inr e \<Rightarrow>
     (case get_key ''label'' (info_label entity_info) of Inl err \<Rightarrow> Inl err | Inr l \<Rightarrow>
        Inr \<lparr>e_id = entity_id,
             e_text = py_join '' '' (py_slice toks s (e + 1)),
             e_type = l,
             e_start_ix = s,
             e_end_ix = e\<rparr>)))"

text \<open>\<^verbatim>\<open>entity_info.get('relations', [])\<close> and the inner loop over it.\<close>

definition get_relations :: "entity_info \<Rightarrow> (string \<times> string) list" where
  "get_relations entity_info =
     (case info_relations entity_info of None \<Rightarrow> [] | Some rels \<Rightarrow> rels)"

definition make_relations :: "string \<Rightarrow> entity_info \<Rightarrow> relation list" where
  "make_relations entity_id entity_info =
     map (\<lambda>(rel_type, target_id). \<lparr>r_source = entity_id, r_target = target_id, r_type = rel_type\<rparr>)
       (get_relations entity_info)"

fun parse_loop :: "string list \<Rightarrow> entity list \<Rightarrow> relation list \<Rightarrow> (string \<times> entity_info) list
    \<Rightarrow> error + (entity list \<times> relation list)" where
  "parse_loop toks entities relations [] = Inr (entities, relations)"
| "parse_loop toks entities relations ((entity_id, entity_info) # rest) =
     (case make_entity toks entity_id entity_info of
        Inl err \<Rightarrow> Inl err
      | Inr entity \<Rightarrow>
          parse_loop toks (entities @ [entity])
            (relations @ make_relations entity_id entity_info) rest)"

definition parse_radgraph_format :: "document \<Rightarrow> error + (entity list \<times> relation list)" where
  "parse_radgraph_format ex =
     (case get_key ''text'' (ex_text ex) of Inl err \<Rightarrow> Inl err | Inr t \<Rightarrow>
     (case get_key ''entities'' (ex_entities ex) of Inl err \<Rightarrow> Inl err | Inr entities_dict \<Rightarrow>
        parse_loop (py_split t) [] [] entities_dict))"

subsection \<open>analyze\_certainty\<close>

fun certainty_loop :: "(string \<times> nat) list \<Rightarrow> entity list \<Rightarrow> error + (string \<times> nat) list" where
  "certainty_loop counts [] = Inr counts"
| "certainty_loop counts (e # es) =
     (if str_in ''::'' (e_type e)
      then (case py_index (py_split_on ''::'' (e_type e)) 1 of
              Inl err \<Rightarrow> Inl err
            | Inr c \<Rightarrow> certainty_loop (dd_incr counts c) es)
      else certainty_loop counts es)"

definition analyze_certainty :: "entity list \<Rightarrow> error + (string \<times> nat) list" where
  "analyze_certainty entities = certainty_loop [] entities"

subsection \<open>find\_pneumonia\_patterns\<close>

text \<open>\<^verbatim>\<open>{e['id']: e for e in entities}\<close>: a later entity replaces an earlier one of the same id.\<close>

definition entity_map :: "entity list \<Rightarrow> (string \<rightharpoonup> entity)" where
  "entity_map entities = fold (\<lambda>e m. m(e_id e \<mapsto> e)) entities Map.empty"

definition lookup_entity :: "(string \<rightharpoonup> entity) \<Rightarrow> string \<Rightarrow> error + entity" where
  "lookup_entity m k = (case m k of None \<Rightarrow> Inl (KeyError k) | Some e \<Rightarrow> Inr e)"

definition matches_term :: "analyzer \<Rightarrow> string \<Rightarrow> bool" where
  "matches_term self txt = list_ex (\<lambda>term. str_in term (py_lower txt)) (pneumonia_terms self)"

text \<open>The \<^verbatim>\<open>if/elif\<close> chain of the loop body, source and target already looked up.\<close>

definition dispatch :: "analyzer \<Rightarrow> patterns \<Rightarrow> relation \<Rightarrow> entity \<Rightarrow> entity \<Rightarrow> patterns" where
  "dispatch self p r source target =
     (if r_type r = ''located_at'' then
        (if str_in ''Observation'' (e_type source)
         then p\<lparr>findings := dd_append (findings p) (e_text source) (Str (e_text target))\<rparr>
         else p)
      else if r_type r = ''modify'' then
        (if str_in ''Observation'' (e_type source) \<and> str_in ''Observation'' (e_type target)
         then p\<lparr>modifiers := dd_append (modifiers p) (e_text target) (Str (e_text source))\<rparr>
         else p)
      else if r_type r = ''suggestive_of'' then
        (if matches_term self (e_text source)
         then p\<lparr>findings := dd_append (findings p) ''suggestive_patterns''
                                (Tup (e_text source) (e_text target))\<rparr>
         else p)
      else p)"

fun patterns_loop :: "analyzer \<Rightarrow> (string \<rightharpoonup> entity) \<Rightarrow> patterns \<Rightarrow> relation list
    \<Rightarrow> error + patterns" where
  "patterns_loop self m p [] = Inr p"
| "patterns_loop self m p (r # rs) =
     (case lookup_entity m (r_source r) of Inl err \<Rightarrow> Inl err | Inr source \<Rightarrow>
     (case lookup_entity m (r_target r) of Inl err \<Rightarrow> Inl err | Inr target \<Rightarrow>
        patterns_loop self m (dispatch self p r source target) rs))"

definition find_pneumonia_patterns :: "analyzer \<Rightarrow> entity list \<Rightarrow> relation list \<Rightarrow> error + patterns" where
  "find_pneumonia_patterns self entities relations =
     patterns_loop self (entity_map entities)
       \<lparr>findings = [], locations = [], modifiers = []\<rparr> relations"

subsection \<open>extract\_features\<close>

text \<open>
  The directed graph: \<^verbatim>\<open>G.edges(u, data=True)\<close> lists the neighbours of \<open>u\<close> in the
  order in which they were first connected; adding an edge twice keeps its place and
  replaces its \<^verbatim>\<open>type\<close>. The node attributes \<^verbatim>\<open>G.nodes[v]\<close> are the entity of that id.
\<close>

definition out_edges :: "relation list \<Rightarrow> string \<Rightarrow> (string \<times> string) list" where
  "out_edges relations u =
     fold (\<lambda>r adj. if r_source r = u then AList.update (r_target r) (r_type r) adj else adj)
       relations []"

definition node_text :: "(string \<rightharpoonup> entity) \<Rightarrow> string \<Rightarrow> error + string" where
  "node_text m v = (case m v of None \<Rightarrow> Inl (KeyError ''text'') | Some e \<Rightarrow> Inr (e_text e))"

fun edges_loop :: "(string \<rightharpoonup> entity) \<Rightarrow> observation \<Rightarrow> (string \<times> string) list
    \<Rightarrow> error + observation" where
  "edges_loop m ob [] = Inr ob"
| "edges_loop m ob ((neighbor, rel_type) # rest) =
     (if rel_type = ''located_at'' then
        (case node_text m neighbor of Inl err \<Rightarrow> Inl err
         | Inr t \<Rightarrow> edges_loop m (ob\<lparr>o_locations := o_locations ob @ [t]\<rparr>) rest)
      else if rel_type = ''modify'' then
        (case node_text m neighbor of Inl err \<Rightarrow> Inl err
         | Inr t \<Rightarrow> edges_loop m (ob\<lparr>o_modifiers := o_modifiers ob @ [t]\<rparr>) rest)
      else if rel_type = ''suggestive_of'' then
        (case node_text m neighbor of Inl err \<Rightarrow> Inl err
         | Inr t \<Rightarrow> edges_loop m (ob\<lparr>o_suggestions := o_suggestions ob @ [t]\<rparr>) rest)
      else edges_loop m ob rest)"

text \<open>\<^verbatim>\<open>observations[obs_id]\<close> on the default-dict: the entry, a fresh one when missing.\<close>

definition obs_get :: "(string \<times> observation) list \<Rightarrow> string \<Rightarrow> observation" where
  "obs_get obs k =
     (case map_of obs k of
        None \<Rightarrow> \<lparr>o_text = [], o_certainty = [], o_locations = [], o_modifiers = [],
                 o_suggestions = []\<rparr>
      | Some ob \<Rightarrow> ob)"

fun observations_loop :: "(string \<rightharpoonup> entity) \<Rightarrow> relation list \<Rightarrow> (string \<times> observation) list
    \<Rightarrow> entity list \<Rightarrow> error + (string \<times> observation) list" where
  "observations_loop m relations obs [] = Inr obs"
| "observations_loop m relations obs (e # es) =
     (if str_in ''Observation'' (e_type e) then
        (case py_index (py_split_on ''::'' (e_type e)) 1 of
           Inl err \<Rightarrow> Inl err
         | Inr c \<Rightarrow>
            (case edges_loop m ((obs_get obs (e_id e))\<lparr>o_text := e_text e, o_certainty := c\<rparr>)
                    (out_edges relations (e_id e)) of
               Inl err \<Rightarrow> Inl err
             | Inr ob \<Rightarrow> observations_loop m relations (AList.update (e_id e) ob obs) es))
      else observations_loop m relations obs es)"

definition extract_features :: "analyzer \<Rightarrow> document \<Rightarrow> error + features" where
  "extract_features self ex =
     (case parse_radgraph_format ex of Inl err \<Rightarrow> Inl err | Inr (entities, relations) \<Rightarrow>
     (case find_pneumonia_patterns self entities relations of Inl err \<Rightarrow> Inl err | Inr pats \<Rightarrow>
     (case analyze_certainty entities of Inl err \<Rightarrow> Inl err | Inr certainty \<Rightarrow>
     (case observations_loop (entity_map entities) relations [] entities of
        Inl err \<Rightarrow> Inl err
      | Inr obs \<Rightarrow>
          Inr \<lparr>f_observations = obs,
               f_patterns = pats,
               f_certainty_analysis = certainty,
               f_graph_metrics =
                 \<lparr>num_entities = length entities,
                  num_relations = length relations,
                  num_anatomical_sites = length (filter (\<lambda>e. str_in ''Anatomy'' (e_type e)) entities),
                  num_observations = length (filter (\<lambda>e. str_in ''Observation'' (e_type e)) entities)\<rparr>\<rparr>))))"

subsection \<open>The sample document of the notebook\<close>

definition sample_extract :: document where
  "sample_extract =
     \<lparr>ex_text = Some ''no evidence of acute cardiopulmonary process moderate hiatal hernia'',
      ex_entities = Some
        [(''1'', \<lparr>info_start_ix = Some 3, info_end_ix = Some 3,
                  info_label = Some ''Observation::definitely absent'',
                  info_relations = Some [(''modify'', ''3'')]\<rparr>),
         (''2'', \<lparr>info_start_ix = Some 4, info_end_ix = Some 4,
                  info_label = Some ''Anatomy::definitely present'',
                  info_relations = Some []\<rparr>),
         (''3'', \<lparr>info_start_ix = Some 5, info_end_ix = Some 5,
                  info_label = Some ''Observation::definitely absent'',
                  info_relations = Some [(''located_at'', ''2'')]\<rparr>),
         (''4'', \<lparr>info_start_ix = Some 6, info_end_ix = Some 6,
                  info_label = Some ''Observation::definitely present'',
                  info_relations = Some [(''modify'', ''5'')]\<rparr>),
         (''5'', \<lparr>info_start_ix = Some 7, info_end_ix = Some 8,
                  info_label = Some ''Observation::definitely present'',
                  info_relations = Some []\<rparr>)]\<rparr>"

text \<open>Further documents, used to evaluate the functions.\<close>

definition sample_entities :: "entity list" where
  "sample_entities =
     [\<lparr>e_id = ''1'', e_text = ''acute'', e_type = ''Observation::definitely absent'',
       e_start_ix = 3, e_end_ix = 3\<rparr>,
      \<lparr>e_id = ''2'', e_text = ''cardiopulmonary'', e_type = ''Anatomy::definitely present'',
       e_start_ix = 4, e_end_ix = 4\<rparr>,
      \<lparr>e_id = ''3'', e_text = ''process'', e_type = ''Observation::definitely absent'',
       e_start_ix = 5, e_end_ix = 5\<rparr>,
      \<lparr>e_id = ''4'', e_text = ''moderate'', e_type = ''Observation::definitely present'',
       e_start_ix = 6, e_end_ix = 6\<rparr>,
      \<lparr>e_id = ''5'', e_text = ''hiatal hernia'', e_type = ''Observation::definitely present'',
       e_start_ix = 7, e_end_ix = 8\<rparr>]"

definition sample_relations :: "relation list" where
  "sample_relations =
     [\<lparr>r_source = ''1'', r_target = ''3'', r_type = ''modify''\<rparr>,
      \<lparr>r_source = ''3'', r_target = ''2'', r_type = ''located_at''\<rparr>,
      \<lparr>r_source = ''4'', r_target = ''5'', r_type = ''modify''\<rparr>]"

definition sample_patterns :: patterns where
  "sample_patterns =
     \<lparr>findings = [(''process'', [Str ''cardiopulmonary''])],
      locations = [],
      modifiers = [(''process'', [Str ''acute'']), (''hiatal hernia'', [Str ''moderate''])]\<rparr>"

text \<open>A relation to the id \<open>9\<close>, which no entity has.\<close>

definition dangling_extract :: document where
  "dangling_extract =
     \<lparr>ex_text = Some ''mild opacity'',
      ex_entities = Some
        [(''1'', \<lparr>info_start_ix = Some 1, info_end_ix = Some 1,
                  info_label = Some ''Observation::definitely present'',
                  info_relations = Some [(''located_at'', ''9'')]\<rparr>)]\<rparr>"

definition dangling_entities :: "entity list" where
  "dangling_entities =
     [\<lparr>e_id = ''1'', e_text = ''opacity'', e_type = ''Observation::definitely present'',
       e_start_ix = 1, e_end_ix = 1\<rparr>]"

definition dangling_relations :: "relation list" where
  "dangling_relations = [\<lparr>r_source = ''1'', r_target = ''9'', r_type = ''located_at''\<rparr>]"

text \<open>Two tokens of text; one span ends at index 7, the other lies at 5 to 6.\<close>

definition overlong_extract :: document where
  "overlong_extract =
     \<lparr>ex_text = Some ''mild opacity'',
      ex_entities = Some
        [(''1'', \<lparr>info_start_ix = Some 1, info_end_ix = Some 7,
                  info_label = Some ''Observation::definitely present'',
                  info_relations = None\<rparr>),
         (''2'', \<lparr>info_start_ix = Some 5, info_end_ix = Some 6,
                  info_label = Some ''Anatomy::definitely present'',
                  info_relations = None\<rparr>)]\<rparr>"

definition overlong_entities :: "entity list" where
  "overlong_entities =
     [\<lparr>e_id = ''1'', e_text = ''opacity'', e_type = ''Observation::definitely present'',
       e_start_ix = 1, e_end_ix = 7\<rparr>,
      \<lparr>e_id = ''2'', e_text = [], e_type = ''Anatomy::definitely present'',
       e_start_ix = 5, e_end_ix = 6\<rparr>]"

text \<open>An entity without \<^verbatim>\<open>end_ix\<close>.\<close>

definition missing_extract :: document where
  "missing_extract =
     \<lparr>ex_text = Some ''mild opacity'',
      ex_entities = Some
        [(''1'', \<lparr>info_start_ix = Some 1, info_end_ix = None,
                  info_label = Some ''Observation::definitely present'',
                  info_relations = None\<rparr>)]\<rparr>"

text \<open>Two tokens of text and the span 0 to 5.\<close>

definition wide_extract :: document where
  "wide_extract =
     \<lparr>ex_text = Some ''mild opacity'',
      ex_entities = Some
        [(''1'', \<lparr>info_start_ix = Some 0, info_end_ix = Some 5,
                  info_label = Some ''Observation::definitely present'',
                  info_relations = None\<rparr>)]\<rparr>"

text \<open>A type label and a relation kind outside the two enumerations.\<close>

definition unknown_extract :: document where
  "unknown_extract =
     \<lparr>ex_text = Some ''mild opacity seen'',
      ex_entities = Some
        [(''1'', \<lparr>info_start_ix = Some 1, info_end_ix = Some 1,
                  info_label = Some ''Finding::maybe'',
                  info_relations = Some [(''causes'', ''2'')]\<rparr>),
         (''2'', \<lparr>info_start_ix = Some 0, info_end_ix = Some 0,
                  info_label = Some ''Anatomy'',
                  info_relations = Some []\<rparr>)]\<rparr>"

definition unknown_entities :: "entity list" where
  "unknown_entities =
     [\<lparr>e_id = ''1'', e_text = ''opacity'', e_type = ''Finding::maybe'',
       e_start_ix = 1, e_end_ix = 1\<rparr>,
      \<lparr>e_id = ''2'', e_text = ''mild'', e_type = ''Anatomy'',
       e_start_ix = 0, e_end_ix = 0\<rparr>]"

definition unknown_relations :: "relation list" where
  "unknown_relations = [\<lparr>r_source = ''1'', r_target = ''2'', r_type = ''causes''\<rparr>]"

text \<open>Two \<^verbatim>\<open>suggestive_of\<close> relations; only the first source names a vocabulary term.\<close>

definition suggestive_extract :: document where
  "suggestive_extract =
     \<lparr>ex_text = Some ''Consolidation effusion pneumonia'',
      ex_entities = Some
        [(''1'', \<lparr>info_start_ix = Some 0, info_end_ix = Some 0,
                  info_label = Some ''Observation::definitely present'',
                  info_relations = Some [(''suggestive_of'', ''3'')]\<rparr>),
         (''2'', \<lparr>info_start_ix = Some 1, info_end_ix = Some 1,
                  info_label = Some ''Observation::definitely present'',
                  info_relations = Some [(''suggestive_of'', ''3'')]\<rparr>),
         (''3'', \<lparr>info_start_ix = Some 2, info_end_ix = Some 2,
                  info_label = Some ''Observation::uncertain'',
                  info_relations = Some []\<rparr>)]\<rparr>"

definition suggestive_entities :: "entity list" where
  "suggestive_entities =
     [\<lparr>e_id = ''1'', e_text = ''Consolidation'', e_type = ''Observation::definitely present'',
       e_start_ix = 0, e_end_ix = 0\<rparr>,
      \<lparr>e_id = ''2'', e_text = ''effusion'', e_type = ''Observation::definitely present'',
       e_start_ix = 1, e_end_ix = 1\<rparr>,
      \<lparr>e_id = ''3'', e_text = ''pneumonia'', e_type = ''Observation::uncertain'',
       e_start_ix = 2, e_end_ix = 2\<rparr>]"

definition suggestive_relations :: "relation list" where
  "suggestive_relations =
     [\<lparr>r_source = ''1'', r_target = ''3'', r_type = ''suggestive_of''\<rparr>,
      \<lparr>r_source = ''2'', r_target = ''3'', r_type = ''suggestive_of''\<rparr>]"

definition suggestive_patterns :: patterns where
  "suggestive_patterns =
     \<lparr>findings = [(''suggestive_patterns'', [Tup ''Consolidation'' ''pneumonia''])],
      locations = [],
      modifiers = []\<rparr>"

text \<open>The same vocabulary as \<open>init\<close>, iterated in the opposite order.\<close>

definition init_reversed :: analyzer where
  "init_reversed = \<lparr>pneumonia_terms = rev (pneumonia_terms init)\<rparr>"

subsection \<open>Notions used in the statements\<close>





text \<open>The test \<^verbatim>\<open>'Observation' in e['type']\<close>.\<close>

definition is_observation :: "entity \<Rightarrow> bool" where
  "is_observation e = str_in ''Observation'' (e_type e)"

text \<open>The three subscripts of the entity literal succeed.\<close>

definition keys_present :: "entity_info \<Rightarrow> bool" where
  "keys_present entity_info =
     (info_start_ix entity_info \<noteq> None \<and> info_end_ix entity_info \<noteq> None
      \<and> info_label entity_info \<noteq> None)"

text \<open>What one turn of the parser's loop appends when they do.\<close>

definition entity_of :: "string list \<Rightarrow> string \<times> entity_info \<Rightarrow> entity" where
  "entity_of toks = (\<lambda>(entity_id, entity_info).
     \<lparr>e_id = entity_id,
      e_text = py_join '' '' (py_slice toks (the (info_start_ix entity_info))
                                (the (info_end_ix entity_info) + 1)),
      e_type = the (info_label entity_info),
      e_start_ix = the (info_start_ix entity_info),
      e_end_ix = the (info_end_ix entity_info)\<rparr>)"

definition relations_of :: "string \<times> entity_info \<Rightarrow> relation list" where
  "relations_of = (\<lambda>(entity_id, entity_info). make_relations entity_id entity_info)"


subsection \<open>The specification's case-insensitive match\<close>





section \<open>Auxiliary facts\<close>

subsection \<open>Substrings and splitting\<close>


lemma split_sep_nonempty: "split_sep sep cur s \<noteq> []"
  by (induction sep cur s rule: split_sep.induct) auto

lemma split_sep_length:
  "sep \<noteq> [] \<Longrightarrow> str_in sep s \<Longrightarrow> 2 \<le> length (split_sep sep cur s)"
proof (induction sep cur s rule: split_sep.induct)
  case (1 sep cur)
  then show ?case by simp
next
  case (2 sep cur c cs)
  show ?case
  proof (cases "prefix sep (c # cs)")
    case True
    have "split_sep sep [] (drop (length sep) (c # cs)) \<noteq> []"
      by (rule split_sep_nonempty)
    then have "1 \<le> length (split_sep sep [] (drop (length sep) (c # cs)))"
      by (simp add: Suc_le_eq)
    with True 2 show ?thesis by simp
  next
    case False
    with 2 show ?thesis by simp
  qed
qed

subsection \<open>Default dictionaries\<close>



lemma sum_dd_incr: "sum_list (map snd (dd_incr d k)) = Suc (sum_list (map snd d))"
  by (induction d k rule: dd_incr.induct) auto

subsection \<open>Splitting a joined list of tokens\<close>

text \<open>
  The tokens of \<open>py_split\<close> are not empty and hold no white space; joining such tokens with a blank and splitting again gives them back.
\<close>

lemma ws_split_aux_tokens:
  "\<forall>c\<in>set cur. \<not> is_space c \<Longrightarrow> tok \<in> set (ws_split_aux cur s) \<Longrightarrow>
   tok \<noteq> [] \<and> (\<forall>c\<in>set tok. \<not> is_space c)"
proof (induction s arbitrary: cur)
  case Nil
  then show ?case by (auto split: if_splits)
next
  case (Cons a s)
  show ?case
  proof (cases "is_space a")
    case True
    with Cons.prems consider "tok = rev cur" "cur \<noteq> []" | "tok \<in> set (ws_split_aux [] s)"
      by (auto split: if_splits)
    then show ?thesis
    proof cases
      case 1
      with Cons.prems(1) show ?thesis by simp
    next
      case 2
      with Cons.IH[of "[]"] show ?thesis by simp
    qed
  next
    case False
    with Cons.prems have "tok \<in> set (ws_split_aux (a # cur) s)" "\<forall>c\<in>set (a # cur). \<not> is_space c"
      by simp_all
    with Cons.IH[of "a # cur"] show ?thesis by blast
  qed
qed

lemma py_split_tokens:
  "tok \<in> set (py_split s) \<Longrightarrow> tok \<noteq> [] \<and> (\<forall>c\<in>set tok. \<not> is_space c)"
  using ws_split_aux_tokens[of "[]" tok s] by (simp add: py_split_def)

lemma ws_split_aux_word:
  "\<forall>c\<in>set tok. \<not> is_space c \<Longrightarrow>
   ws_split_aux cur tok = (if cur = [] \<and> tok = [] then [] else [rev cur @ tok])"
  by (induction tok arbitrary: cur) auto

lemma ws_split_aux_word_space:
  "\<forall>c\<in>set tok. \<not> is_space c \<Longrightarrow> is_space d \<Longrightarrow>
   ws_split_aux cur (tok @ d # rest) =
     (if cur = [] \<and> tok = [] then ws_split_aux [] rest else (rev cur @ tok) # ws_split_aux [] rest)"
  by (induction tok arbitrary: cur) auto

lemma is_space_blank: "is_space CHR '' ''"
  by (simp add: is_space_def)

lemma split_join:
  "\<forall>tok\<in>set ts. tok \<noteq> [] \<and> (\<forall>c\<in>set tok. \<not> is_space c) \<Longrightarrow>
   py_split (py_join '' '' ts) = ts"
proof (induction "'' ''" ts rule: py_join.induct)
  case 1
  then show ?case by (simp add: py_split_def)
next
  case (2 x)
  then show ?case by (simp add: py_split_def ws_split_aux_word)
next
  case (3 x y ys)
  then have "py_split (py_join '' '' (y # ys)) = y # ys" by simp
  moreover from 3 have "x \<noteq> []" "\<forall>c\<in>set x. \<not> is_space c" by simp_all
  ultimately show ?case
    using ws_split_aux_word_space[of x "CHR '' ''" "[]" "py_join '' '' (y # ys)"]
    by (simp add: py_split_def is_space_blank)
qed

lemma py_slice_subset: "set (py_slice xs a b) \<subseteq> set xs"
proof -
  have "set (take n (drop m xs)) \<subseteq> set xs" for n m
    using set_take_subset[of n "drop m xs"] set_drop_subset[of m xs] by blast
  then show ?thesis by (simp add: py_slice_def Let_def)
qed

lemma py_slice_in_range:
  "0 \<le> a \<Longrightarrow> a \<le> b \<Longrightarrow> b < int (length xs) \<Longrightarrow>
   int (length (py_slice xs a (b + 1))) = b - a + 1"
  by (auto simp: py_slice_def slice_bound_def Let_def min_def)

subsection \<open>The parser\<close>

text \<open>
  The loop succeeds exactly when every entity has its three keys, and then maps the input list, entry by entry.
\<close>

lemma make_entity_present:
  "keys_present info \<Longrightarrow> make_entity toks i info = Inr (entity_of toks (i, info))"
  by (auto simp: keys_present_def make_entity_def get_key_def entity_of_def)

lemma make_entity_absent:
  "\<not> keys_present info \<Longrightarrow>
   \<exists>k\<in>{''start_ix'', ''end_ix'', ''label''}. make_entity toks i info = Inl (KeyError k)"
  by (auto simp: keys_present_def make_entity_def get_key_def split: option.splits)

lemma parse_loop_present:
  "list_all (\<lambda>(i, info). keys_present info) ents \<Longrightarrow>
   parse_loop toks es rs ents =
     Inr (es @ map (entity_of toks) ents, rs @ concat (map relations_of ents))"
proof (induction ents arbitrary: es rs)
  case Nil
  then show ?case by simp
next
  case (Cons x ents)
  obtain i info where x: "x = (i, info)" by (cases x)
  with Cons.prems have "keys_present info" "list_all (\<lambda>(i, info). keys_present info) ents"
    by simp_all
  with Cons.IH x show ?case
    by (simp add: make_entity_present relations_of_def)
qed

lemma parse_loop_absent:
  "list_ex (\<lambda>(i, info). \<not> keys_present info) ents \<Longrightarrow>
   \<exists>k\<in>{''start_ix'', ''end_ix'', ''label''}. parse_loop toks es rs ents = Inl (KeyError k)"
proof (induction ents arbitrary: es rs)
  case Nil
  then show ?case by simp
next
  case (Cons x ents)
  obtain i info where x: "x = (i, info)" by (cases x)
  show ?case
  proof (cases "keys_present info")
    case True
    with Cons.prems x have "list_ex (\<lambda>(i, info). \<not> keys_present info) ents" by simp
    from Cons.IH[OF this] True x show ?thesis
      by (simp add: make_entity_present)
  next
    case False
    from make_entity_absent[OF this, of toks i] obtain k where
      k: "k \<in> {''start_ix'', ''end_ix'', ''label''}" and "make_entity toks i info = Inl (KeyError k)"
      by blast
    with x have "parse_loop toks es rs (x # ents) = Inl (KeyError k)" by simp
    with k show ?thesis by blast
  qed
qed

lemma parse_loop_cases:
  "list_all (\<lambda>(i, info). keys_present info) ents \<or> list_ex (\<lambda>(i, info). \<not> keys_present info) ents"
  by (induction ents) auto

lemma parse_Inr_shape:
  assumes "parse_radgraph_format ex = Inr (es, rs)"
  shows "\<exists>t ents. ex_text ex = Some t \<and> ex_entities ex = Some ents
           \<and> list_all (\<lambda>(i, info). keys_present info) ents
           \<and> es = map (entity_of (py_split t)) ents \<and> rs = concat (map relations_of ents)"
proof -
  from assms obtain t ents where t: "ex_text ex = Some t" and ents: "ex_entities ex = Some ents"
    and loop: "parse_loop (py_split t) [] [] ents = Inr (es, rs)"
    by (auto simp: parse_radgraph_format_def get_key_def split: option.splits)
  have all: "list_all (\<lambda>(i, info). keys_present info) ents"
  proof (rule ccontr)
    assume "\<not> ?thesis"
    with parse_loop_cases[of ents] have "list_ex (\<lambda>(i, info). \<not> keys_present info) ents" by simp
    from parse_loop_absent[OF this, of "py_split t" "[]" "[]"] loop show False by auto
  qed
  from parse_loop_present[OF all, of "py_split t" "[]" "[]"] loop
  have "es = map (entity_of (py_split t)) ents" "rs = concat (map relations_of ents)" by simp_all
  with t ents all show ?thesis by blast
qed

lemma parse_present:
  assumes "ex_text ex = Some t" "ex_entities ex = Some ents"
    "list_all (\<lambda>(i, info). keys_present info) ents"
  shows "parse_radgraph_format ex =
           Inr (map (entity_of (py_split t)) ents, concat (map relations_of ents))"
  using assms parse_loop_present[OF assms(3), of "py_split t" "[]" "[]"]
  by (simp add: parse_radgraph_format_def get_key_def)

lemma parse_absent:
  assumes "ex_text ex = Some t" "ex_entities ex = Some ents"
    "list_ex (\<lambda>(i, info). \<not> keys_present info) ents"
  shows "\<exists>k\<in>{''start_ix'', ''end_ix'', ''label''}. parse_radgraph_format ex = Inl (KeyError k)"
  using assms parse_loop_absent[OF assms(3), of "py_split t" "[]" "[]"]
  by (simp add: parse_radgraph_format_def get_key_def)

lemma entity_text_tokens:
  "py_split (e_text (entity_of (py_split t) x)) =
   py_slice (py_split t) (e_start_ix (entity_of (py_split t) x))
     (e_end_ix (entity_of (py_split t) x) + 1)"
proof -
  obtain i info where x: "x = (i, info)" by (cases x)
  define ts where "ts = py_slice (py_split t) (the (info_start_ix info)) (the (info_end_ix info) + 1)"
  have "tok \<noteq> [] \<and> (\<forall>c\<in>set tok. \<not> is_space c)" if "tok \<in> set ts" for tok
  proof -
    from that have "tok \<in> set (py_split t)"
      unfolding ts_def using py_slice_subset by (rule rev_subsetD)
    then show ?thesis by (rule py_split_tokens)
  qed
  then have "\<forall>tok\<in>set ts. tok \<noteq> [] \<and> (\<forall>c\<in>set tok. \<not> is_space c)" by blast
  then have "py_split (py_join '' '' ts) = ts" by (rule split_join)
  moreover have "e_text (entity_of (py_split t) x) = py_join '' '' ts"
    "e_start_ix (entity_of (py_split t) x) = the (info_start_ix info)"
    "e_end_ix (entity_of (py_split t) x) = the (info_end_ix info)"
    by (simp_all add: x entity_of_def ts_def)
  ultimately show ?thesis by (simp add: ts_def)
qed

lemma entity_of_id: "e_id (entity_of toks x) = fst x"
  by (cases x) (simp add: entity_of_def)

lemma entity_of_type: "e_type (entity_of toks x) = the (info_label (snd x))"
  by (cases x) (simp add: entity_of_def)

lemma relations_of_source: "r \<in> set (relations_of x) \<Longrightarrow> r_source r = fst x"
  by (cases x) (auto simp: relations_of_def make_relations_def)

lemma relations_of_type: "map r_type (relations_of x) = map fst (get_relations (snd x))"
  by (cases x) (simp add: relations_of_def make_relations_def case_prod_unfold comp_def)

subsection \<open>The certainty counts\<close>

text \<open>
  The subscript \<^verbatim>\<open>[1]\<close> never fails behind the test for the separator, and every entity that passes the test adds one.
\<close>

lemma certainty_loop_total: "\<exists>h. certainty_loop counts es = Inr h"
proof (induction es arbitrary: counts)
  case Nil
  then show ?case by simp
next
  case (Cons e es)
  show ?case
  proof (cases "str_in ''::'' (e_type e)")
    case True
    then have "2 \<le> length (split_sep ''::'' [] (e_type e))"
      by (intro split_sep_length) simp_all
    then have "py_index (py_split_on ''::'' (e_type e)) 1 = Inr (py_split_on ''::'' (e_type e) ! 1)"
      by (simp add: py_index_def py_split_on_def)
    with True Cons.IH show ?thesis by simp
  next
    case False
    with Cons.IH show ?thesis by simp
  qed
qed

lemma certainty_loop_sum:
  "certainty_loop counts es = Inr h \<Longrightarrow>
   sum_list (map snd h) = sum_list (map snd counts) + length (filter (\<lambda>e. str_in ''::'' (e_type e)) es)"
proof (induction es arbitrary: counts)
  case Nil
  then show ?case by simp
next
  case (Cons e es)
  then show ?case
    by (auto split: if_splits sum.splits simp: sum_dd_incr)
qed

lemma analyze_certainty_total:
  "\<exists>h. analyze_certainty entities = Inr h
       \<and> sum_list (map snd h) = length (filter (\<lambda>e. str_in ''::'' (e_type e)) entities)"
proof -
  obtain h where h: "certainty_loop [] entities = Inr h"
    using certainty_loop_total by blast
  from certainty_loop_sum[OF h] h show ?thesis by (simp add: analyze_certainty_def)
qed

subsection \<open>The pattern loop\<close>

lemma dom_entity_map_aux:
  "dom (fold (\<lambda>e m. m(e_id e \<mapsto> e)) es m0) = dom m0 \<union> e_id ` set es"
  by (induction es arbitrary: m0) auto

lemma dom_entity_map: "dom (entity_map es) = e_id ` set es"
  by (simp add: entity_map_def dom_entity_map_aux)


lemma dispatch_locations: "locations (dispatch self p r s t) = locations p"
  by (simp add: dispatch_def)

lemma patterns_loop_locations:
  "patterns_loop self m p0 rs = Inr p \<Longrightarrow> locations p = locations p0"
  by (induction rs arbitrary: p0) (auto split: sum.splits simp: dispatch_locations)

lemma patterns_loop_dangling:
  "\<exists>r\<in>set rs. r_source r \<notin> dom m \<or> r_target r \<notin> dom m \<Longrightarrow>
   \<exists>k. k \<notin> dom m \<and> patterns_loop self m p0 rs = Inl (KeyError k)"
proof (induction rs arbitrary: p0)
  case Nil
  then show ?case by simp
next
  case (Cons r rs)
  show ?case
  proof (cases "r_source r \<in> dom m \<and> r_target r \<in> dom m")
    case True
    then obtain s t where st: "m (r_source r) = Some s" "m (r_target r) = Some t" by auto
    from True Cons.prems have "\<exists>r\<in>set rs. r_source r \<notin> dom m \<or> r_target r \<notin> dom m" by auto
    from Cons.IH[OF this] st show ?thesis by (simp add: lookup_entity_def)
  next
    case False
    then show ?thesis
      by (cases "m (r_source r)") (auto simp: lookup_entity_def domIff)
  qed
qed


lemma matches_term_cong:
  "set (pneumonia_terms self') = set (pneumonia_terms self) \<Longrightarrow>
   matches_term self' txt = matches_term self txt"
  by (simp add: matches_term_def list_ex_iff)

lemma dispatch_cong:
  assumes "set (pneumonia_terms self') = set (pneumonia_terms self)"
  shows "dispatch self' p r s t = dispatch self p r s t"
proof -
  have "matches_term self' (e_text s) = matches_term self (e_text s)"
    using assms by (rule matches_term_cong)
  then show ?thesis unfolding dispatch_def by simp
qed

lemma patterns_loop_cong:
  assumes "set (pneumonia_terms self') = set (pneumonia_terms self)"
  shows "patterns_loop self' m p rs = patterns_loop self m p rs"
proof (induction rs arbitrary: p)
  case Nil
  show ?case by simp
next
  case (Cons r rs)
  show ?case
    by (simp add: Cons.IH dispatch_cong[OF assms] split: sum.splits)
qed

lemma dispatch_unknown:
  "r_type r \<notin> RELATION_TYPES \<Longrightarrow> dispatch self p r s t = p"
  by (simp add: dispatch_def RELATION_TYPES_def)

lemma patterns_loop_filter_known:
  "patterns_loop self m p0 rs = Inr p \<Longrightarrow>
   patterns_loop self m p0 (filter (\<lambda>r. r_type r \<in> RELATION_TYPES) rs) = Inr p"
proof (induction rs arbitrary: p0)
  case Nil
  then show ?case by simp
next
  case (Cons r rs)
  from Cons.prems obtain s t where
    s: "lookup_entity m (r_source r) = Inr s" and t: "lookup_entity m (r_target r) = Inr t" and
    rest: "patterns_loop self m (dispatch self p0 r s t) rs = Inr p"
    by (auto split: sum.splits)
  show ?case
  proof (cases "r_type r \<in> RELATION_TYPES")
    case True
    with Cons.IH[OF rest] s t show ?thesis by simp
  next
    case False
    with rest have "patterns_loop self m p0 rs = Inr p" by (simp add: dispatch_unknown)
    from Cons.IH[OF this] False show ?thesis by simp
  qed
qed




subsection \<open>Lower-casing and the same letter\<close>












subsection \<open>When the pattern loop returns\<close>



subsection \<open>Evaluations\<close>

text \<open>
  The parser and the pattern loop on the documents defined above.
\<close>

lemma parse_sample:
  "parse_radgraph_format sample_extract = Inr (sample_entities, sample_relations)"
  by code_simp

lemma patterns_sample:
  "find_pneumonia_patterns init sample_entities sample_relations = Inr sample_patterns"
  by code_simp

lemma parse_dangling:
  "parse_radgraph_format dangling_extract = Inr (dangling_entities, dangling_relations)"
  by code_simp

lemma parse_unknown:
  "parse_radgraph_format unknown_extract = Inr (unknown_entities, unknown_relations)"
  by code_simp

lemma patterns_suggestive:
  "find_pneumonia_patterns init suggestive_entities suggestive_relations = Inr suggestive_patterns"
  by code_simp

lemma parse_suggestive:
  "parse_radgraph_format suggestive_extract = Inr (suggestive_entities, suggestive_relations)"
  by code_simp

section \<open>The properties of the specification\<close>

subsection \<open>The sample document\<close>

text \<open>
  C1. On the sample document of the notebook, \<open>extract_features\<close> returns the pattern
  bundle with findings \<open>{process: [cardiopulmonary]}\<close> and modifiers
  \<open>{process: [acute], hiatal hernia: [moderate]}\<close>, the certainty histogram
  \<open>{definitely absent: 2, definitely present: 3}\<close> and the graph metrics 5 entities,
  3 relations, 1 anatomical site and 4 observations. The whole result is the one that the
  notebook records as the output of its last cell.
\<close>

theorem extract_features_sample:
  "extract_features init sample_extract =
     Inr \<lparr>f_observations =
            [(''1'', \<lparr>o_text = ''acute'', o_certainty = ''definitely absent'',
                      o_locations = [], o_modifiers = [''process''], o_suggestions = []\<rparr>),
             (''3'', \<lparr>o_text = ''process'', o_certainty = ''definitely absent'',
                      o_locations = [''cardiopulmonary''], o_modifiers = [], o_suggestions = []\<rparr>),
             (''4'', \<lparr>o_text = ''moderate'', o_certainty = ''definitely present'',
                      o_locations = [], o_modifiers = [''hiatal hernia''], o_suggestions = []\<rparr>),
             (''5'', \<lparr>o_text = ''hiatal hernia'', o_certainty = ''definitely present'',
                      o_locations = [], o_modifiers = [], o_suggestions = []\<rparr>)],
          f_patterns =
            \<lparr>findings = [(''process'', [Str ''cardiopulmonary''])],
             locations = [],
             modifiers = [(''process'', [Str ''acute'']), (''hiatal hernia'', [Str ''moderate''])]\<rparr>,
          f_certainty_analysis = [(''definitely absent'', 2), (''definitely present'', 3)],
          f_graph_metrics =
            \<lparr>num_entities = 5, num_relations = 3, num_anatomical_sites = 1,
             num_observations = 4\<rparr>\<rparr>"
  by code_simp

subsection \<open>The certainty histogram\<close>

text \<open>
  C2 says that the values of the certainty histogram sum to the number of Observation
  entities, other categories contributing nothing. The docstring of
  \<open>analyze_certainty\<close> says the same (certainty levels of observations), but the loop
  counts every entity whose label contains \<^verbatim>\<open>'::'\<close>, the Anatomy entities too
  (\<open>analyze_certainty_total\<close>). On the sample document the histogram sums to 5 and
  there are 4 Observation entities: the entity \<open>cardiopulmonary\<close>, of category
  Anatomy, is counted under \<open>definitely present\<close>.
\<close>

theorem certainty_counts_anatomy:
  "parse_radgraph_format sample_extract = Inr (sample_entities, sample_relations)
   \<and> analyze_certainty sample_entities =
       Inr [(''definitely absent'', 2), (''definitely present'', 3)]
   \<and> sum_list (map snd [(''definitely absent'', 2 :: nat), (''definitely present'', 3)]) = 5
   \<and> length (filter is_observation sample_entities) = 4"
  by code_simp

subsection \<open>Dangling relations\<close>

text \<open>
  C3 as stated (both endpoints of every parsed relation are entities of the document, a
  dangling one fails with a DanglingRelation error) does not hold: the parser checks no
  target id. The document \<open>dangling_extract\<close> is parsed without error into a relation
  whose target \<open>9\<close> is the id of no entity.
\<close>

theorem dangling_relation_survives_parsing:
  "parse_radgraph_format dangling_extract =
     Inr ([\<lparr>e_id = ''1'', e_text = ''opacity'', e_type = ''Observation::definitely present'',
            e_start_ix = 1, e_end_ix = 1\<rparr>],
          [\<lparr>r_source = ''1'', r_target = ''9'', r_type = ''located_at''\<rparr>])
   \<and> ''9'' \<notin> e_id ` set [\<lparr>e_id = ''1'', e_text = ''opacity'',
                              e_type = ''Observation::definitely present'',
                              e_start_ix = 1, e_end_ix = 1\<rparr>]"
  by code_simp

text \<open>
  C3, amended. For every document that the parser accepts, the source of every relation
  is the id of a produced entity, and the relations are all the relations of the input,
  in document order: none is dropped. The target is not checked by the parser. A relation
  whose target is the id of no entity makes \<open>find_pneumonia_patterns\<close>, and with it
  \<open>extract_features\<close>, fail with a \<open>KeyError\<close> for an id that no entity has.
\<close>

theorem dangling_relation_fails_in_analysis:
  assumes "parse_radgraph_format ex = Inr (es, rs)"
  shows "(\<forall>r\<in>set rs. r_source r \<in> e_id ` set es)
       \<and> (\<exists>ents. ex_entities ex = Some ents \<and> rs = concat (map relations_of ents))
       \<and> ((\<exists>r\<in>set rs. r_target r \<notin> e_id ` set es) \<longrightarrow>
            (\<exists>k. k \<notin> e_id ` set es
                 \<and> find_pneumonia_patterns self es rs = Inl (KeyError k)
                 \<and> extract_features self ex = Inl (KeyError k)))"
proof -
  from parse_Inr_shape[OF assms] obtain t ents where
    ents: "ex_entities ex = Some ents" and
    es: "es = map (entity_of (py_split t)) ents" and rs: "rs = concat (map relations_of ents)"
    by blast
  have ids: "e_id ` set es = fst ` set ents"
    unfolding es by (simp add: image_image entity_of_id)
  have src: "\<forall>r\<in>set rs. r_source r \<in> e_id ` set es"
  proof
    fix r assume "r \<in> set rs"
    with rs obtain x where x: "x \<in> set ents" "r \<in> set (relations_of x)" by auto
    from x(2) have "r_source r = fst x" by (rule relations_of_source)
    with x(1) have "r_source r \<in> fst ` set ents" by simp
    then show "r_source r \<in> e_id ` set es" unfolding ids .
  qed
  have dangling: "\<exists>k. k \<notin> e_id ` set es
                 \<and> find_pneumonia_patterns self es rs = Inl (KeyError k)
                 \<and> extract_features self ex = Inl (KeyError k)"
    if "\<exists>r\<in>set rs. r_target r \<notin> e_id ` set es"
  proof -
    from that have "\<exists>r\<in>set rs. r_source r \<notin> dom (entity_map es) \<or> r_target r \<notin> dom (entity_map es)"
      unfolding dom_entity_map by blast
    from patterns_loop_dangling[OF this] obtain k where
      k: "k \<notin> dom (entity_map es)" and
      "patterns_loop self (entity_map es) \<lparr>findings = [], locations = [], modifiers = []\<rparr> rs
         = Inl (KeyError k)"
      by blast
    then have f: "find_pneumonia_patterns self es rs = Inl (KeyError k)"
      by (simp add: find_pneumonia_patterns_def)
    with assms have x: "extract_features self ex = Inl (KeyError k)"
      by (simp add: extract_features_def)
    from k have "k \<notin> e_id ` set es" unfolding dom_entity_map .
    with f x show ?thesis by blast
  qed
  show ?thesis
  proof (intro conjI impI)
    show "\<forall>r\<in>set rs. r_source r \<in> e_id ` set es" by (rule src)
    show "\<exists>ents. ex_entities ex = Some ents \<and> rs = concat (map relations_of ents)"
      using ents rs by blast
    show "\<exists>k. k \<notin> e_id ` set es
                 \<and> find_pneumonia_patterns self es rs = Inl (KeyError k)
                 \<and> extract_features self ex = Inl (KeyError k)"
      if "\<exists>r\<in>set rs. r_target r \<notin> e_id ` set es"
      using that by (rule dangling)
  qed
qed

text \<open>The amended C3 on \<open>dangling_extract\<close>: parsed, and refused by the analysis.\<close>

theorem dangling_relation_fails_in_analysis_witness:
  "parse_radgraph_format dangling_extract = Inr (dangling_entities, dangling_relations)
   \<and> r_source ` set dangling_relations \<subseteq> e_id ` set dangling_entities
   \<and> r_target ` set dangling_relations = {''9''}
   \<and> ''9'' \<notin> e_id ` set dangling_entities
   \<and> find_pneumonia_patterns init dangling_entities dangling_relations = Inl (KeyError ''9'')
   \<and> extract_features init dangling_extract = Inl (KeyError ''9'')"
proof -
  have h: "parse_radgraph_format dangling_extract = Inr (dangling_entities, dangling_relations)"
    by (rule parse_dangling)
  note c = dangling_relation_fails_in_analysis[OF h, of init]
  have tgt: "r_target ` set dangling_relations = {''9''}"
    by (simp add: dangling_relations_def)
  have none: "''9'' \<notin> e_id ` set dangling_entities"
    by (simp add: dangling_entities_def)
  from c have all: "\<forall>r\<in>set dangling_relations. r_source r \<in> e_id ` set dangling_entities"
    by (rule conjunct1)
  have src: "r_source ` set dangling_relations \<subseteq> e_id ` set dangling_entities"
  proof (rule image_subsetI)
    fix r assume "r \<in> set dangling_relations"
    with all show "r_source r \<in> e_id ` set dangling_entities" by (rule bspec)
  qed
  have "\<lparr>r_source = ''1'', r_target = ''9'', r_type = ''located_at''\<rparr> \<in> set dangling_relations"
    by (simp add: dangling_relations_def)
  moreover have "r_target \<lparr>r_source = ''1'', r_target = ''9'', r_type = ''located_at''\<rparr>
      \<notin> e_id ` set dangling_entities"
    by (simp add: dangling_entities_def)
  ultimately have ex: "\<exists>r\<in>set dangling_relations. r_target r \<notin> e_id ` set dangling_entities"
    by (rule bexI[rotated])
  from c have "(\<exists>r\<in>set dangling_relations. r_target r \<notin> e_id ` set dangling_entities) \<longrightarrow>
      (\<exists>k. k \<notin> e_id ` set dangling_entities
         \<and> find_pneumonia_patterns init dangling_entities dangling_relations = Inl (KeyError k)
         \<and> extract_features init dangling_extract = Inl (KeyError k))"
    by (rule conjunct2[OF conjunct2])
  then have "\<exists>k. k \<notin> e_id ` set dangling_entities
         \<and> find_pneumonia_patterns init dangling_entities dangling_relations = Inl (KeyError k)
         \<and> extract_features init dangling_extract = Inl (KeyError k)"
    using ex by (rule mp)
  then obtain k where
    k1: "find_pneumonia_patterns init dangling_entities dangling_relations = Inl (KeyError k)" and
    k2: "extract_features init dangling_extract = Inl (KeyError k)"
    by (elim exE conjE)
  have f: "find_pneumonia_patterns init dangling_entities dangling_relations = Inl (KeyError ''9'')"
    by code_simp
  from k1 f have "k = ''9''" by simp
  with k2 have x: "extract_features init dangling_extract = Inl (KeyError ''9'')" by simp
  show ?thesis
    by (intro conjI h src tgt none f x)
qed

subsection \<open>Token spans\<close>

text \<open>
  C4 as stated (a span that does not fit the text, or a missing index, fails with a
  MalformedAnnotation error and produces no entity) does not hold: a slice never raises.
  The text of \<open>overlong_extract\<close> has two tokens; the span 1 to 7 yields the entity
  \<open>opacity\<close> and the span 5 to 6 an entity with the empty text.
\<close>

theorem overlong_span_parses:
  "parse_radgraph_format overlong_extract =
     Inr ([\<lparr>e_id = ''1'', e_text = ''opacity'', e_type = ''Observation::definitely present'',
            e_start_ix = 1, e_end_ix = 7\<rparr>,
           \<lparr>e_id = ''2'', e_text = [], e_type = ''Anatomy::definitely present'',
            e_start_ix = 5, e_end_ix = 6\<rparr>], [])
   \<and> length (py_split ''mild opacity'') = 2"
  by code_simp

text \<open>
  C4, amended. When an entity lacks \<^verbatim>\<open>start_ix\<close> or \<^verbatim>\<open>end_ix\<close>, parsing fails
  with the \<open>KeyError\<close> of a missing key; there is no MalformedAnnotation error. When
  every entity has its three keys, parsing returns one entity per entry of the input,
  whatever the indices are: the tokens of an entity's text are the slice
  \<^verbatim>\<open>tokens[start_ix : end_ix + 1]\<close> of the text's tokens, cut off at the ends of the
  text (and empty when nothing is left).
\<close>

theorem span_not_validated:
  assumes "ex_text ex = Some t" and "ex_entities ex = Some ents"
  shows "(list_ex (\<lambda>(i, info). info_start_ix info = None \<or> info_end_ix info = None) ents \<longrightarrow>
            (\<exists>k\<in>{''start_ix'', ''end_ix'', ''label''}.
               parse_radgraph_format ex = Inl (KeyError k)))
       \<and> (list_all (\<lambda>(i, info). keys_present info) ents \<longrightarrow>
            (\<exists>es rs. parse_radgraph_format ex = Inr (es, rs)
               \<and> map e_id es = map fst ents
               \<and> (\<forall>e\<in>set es. py_split (e_text e) =
                     py_slice (py_split t) (e_start_ix e) (e_end_ix e + 1))))"
proof (intro conjI impI)
  assume "list_ex (\<lambda>(i, info). info_start_ix info = None \<or> info_end_ix info = None) ents"
  then have "list_ex (\<lambda>(i, info). \<not> keys_present info) ents"
    by (auto simp: list_ex_iff keys_present_def)
  from parse_absent[OF assms this]
  show "\<exists>k\<in>{''start_ix'', ''end_ix'', ''label''}. parse_radgraph_format ex = Inl (KeyError k)" .
next
  assume "list_all (\<lambda>(i, info). keys_present info) ents"
  from parse_present[OF assms this]
  have p: "parse_radgraph_format ex =
        Inr (map (entity_of (py_split t)) ents, concat (map relations_of ents))" .
  have "map e_id (map (entity_of (py_split t)) ents) = map fst ents"
    by (simp add: entity_of_id)
  moreover have "\<forall>e\<in>set (map (entity_of (py_split t)) ents).
      py_split (e_text e) = py_slice (py_split t) (e_start_ix e) (e_end_ix e + 1)"
    by (auto simp: entity_text_tokens)
  ultimately show "\<exists>es rs. parse_radgraph_format ex = Inr (es, rs)
               \<and> map e_id es = map fst ents
               \<and> (\<forall>e\<in>set es. py_split (e_text e) =
                     py_slice (py_split t) (e_start_ix e) (e_end_ix e + 1))"
    using p by blast
qed

text \<open>
  The amended C4 on \<open>missing_extract\<close>, which lacks an \<^verbatim>\<open>end_ix\<close>, and on
  \<open>overlong_extract\<close>, whose spans leave the text.
\<close>

theorem span_not_validated_witness:
  "ex_text missing_extract = Some ''mild opacity''
   \<and> list_ex (\<lambda>(i, info). info_start_ix info = None \<or> info_end_ix info = None)
        [(''1'', \<lparr>info_start_ix = Some 1, info_end_ix = None,
                  info_label = Some ''Observation::definitely present'',
                  info_relations = None\<rparr>)]
   \<and> parse_radgraph_format missing_extract = Inl (KeyError ''end_ix'')
   \<and> ex_text overlong_extract = Some ''mild opacity''
   \<and> parse_radgraph_format overlong_extract = Inr (overlong_entities, [])
   \<and> map e_id overlong_entities = [''1'', ''2'']
   \<and> list_all (\<lambda>e. py_split (e_text e) =
                     py_slice (py_split ''mild opacity'') (e_start_ix e) (e_end_ix e + 1))
        overlong_entities"
proof -
  let ?m = "[(''1'', \<lparr>info_start_ix = Some 1, info_end_ix = None,
                  info_label = Some ''Observation::definitely present'',
                  info_relations = None\<rparr>)]"
  let ?o = "[(''1'', \<lparr>info_start_ix = Some 1, info_end_ix = Some 7,
                  info_label = Some ''Observation::definitely present'',
                  info_relations = None\<rparr>),
             (''2'', \<lparr>info_start_ix = Some 5, info_end_ix = Some 6,
                  info_label = Some ''Anatomy::definitely present'',
                  info_relations = None\<rparr>)]"
  have mt: "ex_text missing_extract = Some ''mild opacity''"
    and me: "ex_entities missing_extract = Some ?m"
    and ot: "ex_text overlong_extract = Some ''mild opacity''"
    and oe: "ex_entities overlong_extract = Some ?o"
    by (simp_all add: missing_extract_def overlong_extract_def)
  have gap: "list_ex (\<lambda>(i, info). info_start_ix info = None \<or> info_end_ix info = None) ?m"
    by simp
  have full: "list_all (\<lambda>(i, info). keys_present info) ?o"
    by (simp add: keys_present_def)
  from span_not_validated[OF mt me] gap
  have "\<exists>k\<in>{''start_ix'', ''end_ix'', ''label''}.
          parse_radgraph_format missing_extract = Inl (KeyError k)"
    by blast
  moreover have "parse_radgraph_format missing_extract = Inl (KeyError ''end_ix'')"
    by code_simp
  ultimately have a: "parse_radgraph_format missing_extract = Inl (KeyError ''end_ix'')"
    by simp
  have b: "parse_radgraph_format overlong_extract = Inr (overlong_entities, [])"
    by code_simp
  from span_not_validated[OF ot oe] full obtain es rs where
    "parse_radgraph_format overlong_extract = Inr (es, rs)"
    "map e_id es = map fst ?o"
    "\<forall>e\<in>set es. py_split (e_text e) =
        py_slice (py_split ''mild opacity'') (e_start_ix e) (e_end_ix e + 1)"
    by blast
  with b have c: "map e_id overlong_entities = [''1'', ''2'']"
    and d: "list_all (\<lambda>e. py_split (e_text e) =
                     py_slice (py_split ''mild opacity'') (e_start_ix e) (e_end_ix e + 1))
              overlong_entities"
    by (simp_all add: list_all_iff)
  from mt gap a ot b c d show ?thesis by simp
qed

text \<open>
  C5 as stated (for every entity that the parser produces, the number of tokens of its
  text is \<open>end_ix - start_ix + 1\<close>) does not hold for a span that leaves the text:
  the text of \<open>wide_extract\<close> has two tokens, the span 0 to 5 yields both, and
  \<open>5 - 0 + 1 = 6\<close>.
\<close>

theorem token_count_fails_off_text:
  "parse_radgraph_format wide_extract =
     Inr ([\<lparr>e_id = ''1'', e_text = ''mild opacity'',
            e_type = ''Observation::definitely present'', e_start_ix = 0, e_end_ix = 5\<rparr>], [])
   \<and> int (length (py_split ''mild opacity'')) = 2
   \<and> int (length (py_split ''mild opacity'')) \<noteq> 5 - 0 + 1"
  by code_simp

text \<open>
  C5, amended. For every entity that the parser produces and whose span lies in the
  text, \<open>0 \<le> start_ix \<le> end_ix < number of tokens of the text\<close>, the number of
  white-space separated tokens of its text is \<open>end_ix - start_ix + 1\<close>.
\<close>

theorem token_count_in_range:
  assumes "parse_radgraph_format ex = Inr (es, rs)" and "ex_text ex = Some t"
    and "e \<in> set es"
    and "0 \<le> e_start_ix e" and "e_start_ix e \<le> e_end_ix e"
    and "e_end_ix e < int (length (py_split t))"
  shows "int (length (py_split (e_text e))) = e_end_ix e - e_start_ix e + 1"
proof -
  from parse_Inr_shape[OF assms(1)] assms(2) obtain ents where
    "es = map (entity_of (py_split t)) ents" by auto
  with assms(3) obtain x where "e = entity_of (py_split t) x" by auto
  then have "py_split (e_text e) = py_slice (py_split t) (e_start_ix e) (e_end_ix e + 1)"
    by (simp add: entity_text_tokens)
  with py_slice_in_range[OF assms(4,5,6)] show ?thesis by simp
qed

text \<open>The amended C5 on the entity \<open>hiatal hernia\<close> of the sample, tokens 7 to 8 of 9.\<close>

theorem token_count_in_range_witness:
  "parse_radgraph_format sample_extract = Inr (sample_entities, sample_relations)
   \<and> ex_text sample_extract =
       Some ''no evidence of acute cardiopulmonary process moderate hiatal hernia''
   \<and> length (py_split ''no evidence of acute cardiopulmonary process moderate hiatal hernia'') = 9
   \<and> \<lparr>e_id = ''5'', e_text = ''hiatal hernia'', e_type = ''Observation::definitely present'',
       e_start_ix = 7, e_end_ix = 8\<rparr> \<in> set sample_entities
   \<and> int (length (py_split ''hiatal hernia'')) = 8 - 7 + 1"
proof -
  let ?t = "''no evidence of acute cardiopulmonary process moderate hiatal hernia''"
  let ?e = "\<lparr>e_id = ''5'', e_text = ''hiatal hernia'',
             e_type = ''Observation::definitely present'', e_start_ix = 7, e_end_ix = 8\<rparr>"
  have h: "parse_radgraph_format sample_extract = Inr (sample_entities, sample_relations)"
    by (rule parse_sample)
  have t: "ex_text sample_extract = Some ?t"
    by (simp add: sample_extract_def)
  have n: "length (py_split ?t) = 9"
    by code_simp
  have m: "?e \<in> set sample_entities"
    by (simp add: sample_entities_def)
  have "int (length (py_split (e_text ?e))) = e_end_ix ?e - e_start_ix ?e + 1"
    by (rule token_count_in_range[OF h t m]) (simp_all add: n)
  then have "int (length (py_split ''hiatal hernia'')) = 8 - 7 + 1" by simp
  with h t n m show ?thesis by simp
qed

subsection \<open>Labels outside the enumerations\<close>

text \<open>
  C6 as stated (a type label outside \<open>ENTITY_TYPES\<close> or a relation kind outside
  \<open>RELATION_TYPES\<close> raises UnknownTypeLabel or UnknownRelationKind) does not hold: the
  two sets are declared and never read. The document \<open>unknown_extract\<close> has the labels
  \<open>Finding::maybe\<close> and \<open>Anatomy\<close> and a relation of kind \<open>causes\<close>, and
  \<open>extract_features\<close> returns a result for it.
\<close>

theorem unknown_labels_accepted:
  "extract_features init unknown_extract =
     Inr \<lparr>f_observations = [],
          f_patterns = \<lparr>findings = [], locations = [], modifiers = []\<rparr>,
          f_certainty_analysis = [(''maybe'', 1)],
          f_graph_metrics =
            \<lparr>num_entities = 2, num_relations = 1, num_anatomical_sites = 1,
             num_observations = 0\<rparr>\<rparr>
   \<and> ''Finding::maybe'' \<notin> ENTITY_TYPES
   \<and> ''Anatomy'' \<notin> ENTITY_TYPES
   \<and> ''causes'' \<notin> RELATION_TYPES"
proof -
  have "''Finding::maybe'' \<notin> ENTITY_TYPES" "''Anatomy'' \<notin> ENTITY_TYPES"
    "''causes'' \<notin> RELATION_TYPES"
    by (simp_all add: ENTITY_TYPES_def RELATION_TYPES_def)
  moreover have "extract_features init unknown_extract =
     Inr \<lparr>f_observations = [],
          f_patterns = \<lparr>findings = [], locations = [], modifiers = []\<rparr>,
          f_certainty_analysis = [(''maybe'', 1)],
          f_graph_metrics =
            \<lparr>num_entities = 2, num_relations = 1, num_anatomical_sites = 1,
             num_observations = 0\<rparr>\<rparr>"
    by code_simp
  ultimately show ?thesis by simp
qed

text \<open>
  C6, amended. No label is validated. When every entity has its three keys, the parser
  returns its result whatever the type labels and the relation kinds are, and copies
  each label and each kind into the entity and relation lists as it is. A relation whose
  kind is outside \<open>RELATION_TYPES\<close> is skipped by the pattern analyzer: whenever
  \<open>find_pneumonia_patterns\<close> returns a bundle, it is the bundle of the relations
  whose kind is in \<open>RELATION_TYPES\<close>.
\<close>

theorem labels_not_validated:
  assumes "ex_text ex = Some t" and "ex_entities ex = Some ents"
    and "list_all (\<lambda>(i, info). keys_present info) ents"
  shows "\<exists>es rs. parse_radgraph_format ex = Inr (es, rs)
           \<and> map e_type es = map (\<lambda>(i, info). the (info_label info)) ents
           \<and> map r_type rs = concat (map (\<lambda>(i, info). map fst (get_relations info)) ents)
           \<and> (\<forall>p. find_pneumonia_patterns self es rs = Inr p \<longrightarrow>
                 find_pneumonia_patterns self es
                   (filter (\<lambda>r. r_type r \<in> RELATION_TYPES) rs) = Inr p)"
proof -
  let ?es = "map (entity_of (py_split t)) ents" and ?rs = "concat (map relations_of ents)"
  from parse_present[OF assms] have "parse_radgraph_format ex = Inr (?es, ?rs)" .
  moreover have "map e_type ?es = map (\<lambda>(i, info). the (info_label info)) ents"
    by (simp add: entity_of_type case_prod_unfold)
  moreover have "map r_type ?rs = concat (map (\<lambda>(i, info). map fst (get_relations info)) ents)"
    by (simp add: map_concat comp_def relations_of_type case_prod_unfold)
  moreover have "\<forall>p. find_pneumonia_patterns self ?es ?rs = Inr p \<longrightarrow>
                 find_pneumonia_patterns self ?es
                   (filter (\<lambda>r. r_type r \<in> RELATION_TYPES) ?rs) = Inr p"
    unfolding find_pneumonia_patterns_def by (blast intro: patterns_loop_filter_known)
  ultimately show ?thesis by blast
qed

text \<open>The amended C6 on \<open>unknown_extract\<close>.\<close>

theorem labels_not_validated_witness:
  "ex_text unknown_extract = Some ''mild opacity seen''
   \<and> parse_radgraph_format unknown_extract = Inr (unknown_entities, unknown_relations)
   \<and> map e_type unknown_entities = [''Finding::maybe'', ''Anatomy'']
   \<and> map r_type unknown_relations = [''causes'']
   \<and> find_pneumonia_patterns init unknown_entities unknown_relations =
       Inr \<lparr>findings = [], locations = [], modifiers = []\<rparr>
   \<and> find_pneumonia_patterns init unknown_entities
        (filter (\<lambda>r. r_type r \<in> RELATION_TYPES) unknown_relations) =
       Inr \<lparr>findings = [], locations = [], modifiers = []\<rparr>"
proof -
  let ?u = "[(''1'', \<lparr>info_start_ix = Some 1, info_end_ix = Some 1,
                  info_label = Some ''Finding::maybe'',
                  info_relations = Some [(''causes'', ''2'')]\<rparr>),
             (''2'', \<lparr>info_start_ix = Some 0, info_end_ix = Some 0,
                  info_label = Some ''Anatomy'',
                  info_relations = Some []\<rparr>)]"
  have t: "ex_text unknown_extract = Some ''mild opacity seen''"
    and e: "ex_entities unknown_extract = Some ?u"
    by (simp_all add: unknown_extract_def)
  have full: "list_all (\<lambda>(i, info). keys_present info) ?u"
    by (simp add: keys_present_def)
  have h: "parse_radgraph_format unknown_extract = Inr (unknown_entities, unknown_relations)"
    by (rule parse_unknown)
  have f: "find_pneumonia_patterns init unknown_entities unknown_relations =
       Inr \<lparr>findings = [], locations = [], modifiers = []\<rparr>"
    by code_simp
  from labels_not_validated[OF t e full, of init] h
  have "map e_type unknown_entities = map (\<lambda>(i, info). the (info_label info)) ?u"
    and "map r_type unknown_relations =
           concat (map (\<lambda>(i, info). map fst (get_relations info)) ?u)"
    and "\<forall>p. find_pneumonia_patterns init unknown_entities unknown_relations = Inr p \<longrightarrow>
           find_pneumonia_patterns init unknown_entities
             (filter (\<lambda>r. r_type r \<in> RELATION_TYPES) unknown_relations) = Inr p"
    by auto
  with f have "map e_type unknown_entities = [''Finding::maybe'', ''Anatomy'']"
    and "map r_type unknown_relations = [''causes'']"
    and "find_pneumonia_patterns init unknown_entities
           (filter (\<lambda>r. r_type r \<in> RELATION_TYPES) unknown_relations) =
         Inr \<lparr>findings = [], locations = [], modifiers = []\<rparr>"
    by (simp_all add: get_relations_def)
  with t h f show ?thesis by simp
qed

subsection \<open>The pattern bundle\<close>





text \<open>
  C10. Whenever \<open>find_pneumonia_patterns\<close> returns a bundle, its \<open>locations\<close> mapping
  is empty: no branch of the loop writes to it.
\<close>

theorem locations_empty:
  assumes "find_pneumonia_patterns self entities relations = Inr p"
  shows "locations p = []"
  using patterns_loop_locations[OF assms[unfolded find_pneumonia_patterns_def]] by simp

text \<open>C10 on the sample, which has a \<open>located_at\<close> relation.\<close>

theorem locations_empty_witness:
  "find_pneumonia_patterns init sample_entities sample_relations = Inr sample_patterns
   \<and> locations sample_patterns = []
   \<and> findings sample_patterns = [(''process'', [Str ''cardiopulmonary''])]"
proof -
  have h: "find_pneumonia_patterns init sample_entities sample_relations = Inr sample_patterns"
    by (rule patterns_sample)
  from locations_empty[OF h] h show ?thesis by (simp add: sample_patterns_def)
qed

subsection \<open>Determinism\<close>

text \<open>
  C9. The parser and the analyzer are functions of the document, whose entities and
  relations are lists in document order: two runs on the same input give the same
  lists, and the lists that the parser returns follow the input entry by entry. The one
  collection that Python iterates in hash order is the vocabulary set, and the order of
  its iteration changes nothing: two analyzers whose vocabularies are the same set,
  listed in any two orders, return the same pattern bundle and the same features.
\<close>

theorem term_order_irrelevant:
  assumes "set (pneumonia_terms self') = set (pneumonia_terms self)"
  shows "find_pneumonia_patterns self' entities relations = find_pneumonia_patterns self entities relations
       \<and> extract_features self' ex = extract_features self ex
       \<and> (\<forall>es rs. parse_radgraph_format ex = Inr (es, rs) \<longrightarrow>
             (\<exists>t ents. ex_text ex = Some t \<and> ex_entities ex = Some ents
                \<and> es = map (entity_of (py_split t)) ents
                \<and> rs = concat (map relations_of ents)))"
proof -
  have same: "find_pneumonia_patterns self' es rs = find_pneumonia_patterns self es rs" for es rs
    by (simp add: find_pneumonia_patterns_def patterns_loop_cong[OF assms])
  have "extract_features self' ex = extract_features self ex"
    unfolding extract_features_def same by simp
  moreover have "\<exists>t ents. ex_text ex = Some t \<and> ex_entities ex = Some ents
                \<and> es = map (entity_of (py_split t)) ents
                \<and> rs = concat (map relations_of ents)"
    if "parse_radgraph_format ex = Inr (es, rs)" for es rs
    using parse_Inr_shape[OF that] by blast
  ultimately show ?thesis using same by blast
qed

text \<open>C9 on the vocabulary in the opposite order.\<close>

theorem term_order_irrelevant_witness:
  "set (pneumonia_terms init_reversed) = set (pneumonia_terms init)
   \<and> pneumonia_terms init_reversed \<noteq> pneumonia_terms init
   \<and> find_pneumonia_patterns init_reversed suggestive_entities suggestive_relations =
       Inr suggestive_patterns
   \<and> extract_features init_reversed suggestive_extract = extract_features init suggestive_extract
   \<and> parse_radgraph_format suggestive_extract = Inr (suggestive_entities, suggestive_relations)
   \<and> map e_id suggestive_entities = [''1'', ''2'', ''3'']"
proof -
  have h: "set (pneumonia_terms init_reversed) = set (pneumonia_terms init)"
    by (simp add: init_reversed_def)
  have d: "pneumonia_terms init_reversed \<noteq> pneumonia_terms init"
    by (simp add: init_reversed_def init_def)
  note c = term_order_irrelevant[OF h, of suggestive_entities suggestive_relations suggestive_extract]
  from c have a: "find_pneumonia_patterns init_reversed suggestive_entities suggestive_relations =
       Inr suggestive_patterns"
    by (simp add: patterns_suggestive)
  from c have b: "extract_features init_reversed suggestive_extract =
       extract_features init suggestive_extract"
    by (rule conjunct1[OF conjunct2])
  have i: "map e_id suggestive_entities = [''1'', ''2'', ''3'']"
    by (simp add: suggestive_entities_def)
  show ?thesis
    by (intro conjI h d a b parse_suggestive i)
qed

end
